theory Spec2Isabelle
  imports Main
begin

section \<open>Geometry of the toolkit: points, sizes, rectangles\<close>

text \<open>
  The display widget of \<^verbatim>\<open>src/screenshotdisplay.cpp\<close> works on the toolkit's integer
  geometry. Coordinates are pixel positions of a pointer on a screen; they are modelled
  as \<open>int\<close> (they stay far from the limits of a 32-bit \<^verbatim>\<open>int\<close>, whose overflow is
  undefined in C++).

  A rectangle stores its left, top, right and bottom pixel, both borders included, so
  that \<open>width = x2 - x1 + 1\<close>. A default-constructed size is \<open>(-1, -1)\<close>, and a
  default-constructed rectangle is \<open>(0, 0, -1, -1)\<close>, of width and height \<open>0\<close>.
\<close>

datatype QPoint = QPoint (pt_x: int) (pt_y: int)

datatype QSize = QSize (sz_w: int) (sz_h: int)

datatype QRect = QRect (x1: int) (y1: int) (x2: int) (y2: int)

text \<open>\<^verbatim>\<open>a / b\<close> on C++ ints rounds toward zero; \<open>div\<close> of HOL rounds down.\<close>

definition cdiv :: "int \<Rightarrow> int \<Rightarrow> int" where
  "cdiv a b = sgn a * sgn b * (\<bar>a\<bar> div \<bar>b\<bar>)"

definition padd :: "QPoint \<Rightarrow> QPoint \<Rightarrow> QPoint" where
  "padd p q = QPoint (pt_x p + pt_x q) (pt_y p + pt_y q)"

definition psub :: "QPoint \<Rightarrow> QPoint \<Rightarrow> QPoint" where
  "psub p q = QPoint (pt_x p - pt_x q) (pt_y p - pt_y q)"

text \<open>\<^verbatim>\<open>QSize()\<close>, \<^verbatim>\<open>QRect()\<close>, \<^verbatim>\<open>QRect(topLeft, size)\<close>, \<^verbatim>\<open>QRect(topLeft, bottomRight)\<close>.\<close>

definition QSize_default :: QSize where
  "QSize_default = QSize (- 1) (- 1)"

definition QRect_default :: QRect where
  "QRect_default = QRect 0 0 (- 1) (- 1)"

definition QRect_sized :: "QPoint \<Rightarrow> QSize \<Rightarrow> QRect" where
  "QRect_sized p s = QRect (pt_x p) (pt_y p) (pt_x p + sz_w s - 1) (pt_y p + sz_h s - 1)"

definition QRect_corners :: "QPoint \<Rightarrow> QPoint \<Rightarrow> QRect" where
  "QRect_corners p q = QRect (pt_x p) (pt_y p) (pt_x q) (pt_y q)"

definition width :: "QRect \<Rightarrow> int" where
  "width r = x2 r - x1 r + 1"

definition height :: "QRect \<Rightarrow> int" where
  "height r = y2 r - y1 r + 1"

definition size_r :: "QRect \<Rightarrow> QSize" where
  "size_r r = QSize (width r) (height r)"

definition topLeft :: "QRect \<Rightarrow> QPoint" where
  "topLeft r = QPoint (x1 r) (y1 r)"

definition topRight :: "QRect \<Rightarrow> QPoint" where
  "topRight r = QPoint (x2 r) (y1 r)"

definition bottomLeft :: "QRect \<Rightarrow> QPoint" where
  "bottomLeft r = QPoint (x1 r) (y2 r)"

definition bottomRight :: "QRect \<Rightarrow> QPoint" where
  "bottomRight r = QPoint (x2 r) (y2 r)"

definition isValid :: "QRect \<Rightarrow> bool" where
  "isValid r \<longleftrightarrow> x1 r \<le> x2 r \<and> y1 r \<le> y2 r"

definition isEmpty :: "QRect \<Rightarrow> bool" where
  "isEmpty r \<longleftrightarrow> x1 r > x2 r \<or> y1 r > y2 r"

definition isNull :: "QRect \<Rightarrow> bool" where
  "isNull r \<longleftrightarrow> x2 r = x1 r - 1 \<and> y2 r = y1 r - 1"

text \<open>
  \<^verbatim>\<open>QRect::contains(point)\<close>, with \<^verbatim>\<open>proper = false\<close>: the borders belong to the
  rectangle, and a rectangle whose right edge lies more than one pixel left of its left
  edge is read with the two edges exchanged (likewise top and bottom).
\<close>

definition contains :: "QRect \<Rightarrow> QPoint \<Rightarrow> bool" where
  "contains r p =
     (let l = (if x2 r < x1 r - 1 then x2 r else x1 r);
          rt = (if x2 r < x1 r - 1 then x1 r else x2 r);
          t = (if y2 r < y1 r - 1 then y2 r else y1 r);
          b = (if y2 r < y1 r - 1 then y1 r else y2 r)
      in \<not> (pt_x p < l \<or> pt_x p > rt) \<and> \<not> (pt_y p < t \<or> pt_y p > b))"

definition translated :: "QRect \<Rightarrow> QPoint \<Rightarrow> QRect" where
  "translated r p = QRect (x1 r + pt_x p) (y1 r + pt_y p) (x2 r + pt_x p) (y2 r + pt_y p)"

text \<open>
  \<^verbatim>\<open>QRect::normalized()\<close>: a rectangle of negative width has its left and right edges
  exchanged, one of negative height its top and bottom edges.
\<close>

definition normalized :: "QRect \<Rightarrow> QRect" where
  "normalized r =
     (let (a, c) = (if x2 r < x1 r then (x2 r + 1, x1 r - 1) else (x1 r, x2 r));
          (b, d) = (if y2 r < y1 r then (y2 r + 1, y1 r - 1) else (y1 r, y2 r))
      in QRect a b c d)"

text \<open>
  Version 5 of the toolkit exchanges the edges themselves, and only when the width or
  height is below \<open>-1\<close>. The widget's handlers are modelled with \<open>normalized\<close>; what is
  proved of the sign of width and height holds for both.
\<close>

definition normalized_5 :: "QRect \<Rightarrow> QRect" where
  "normalized_5 r =
     (let (a, c) = (if x2 r < x1 r - 1 then (x2 r, x1 r) else (x1 r, x2 r));
          (b, d) = (if y2 r < y1 r - 1 then (y2 r, y1 r) else (y1 r, y2 r))
      in QRect a b c d)"

text \<open>\<^verbatim>\<open>moveTopLeft\<close> keeps the size; the \<^verbatim>\<open>set...\<close> functions move edges alone.\<close>

definition moveTopLeft :: "QRect \<Rightarrow> QPoint \<Rightarrow> QRect" where
  "moveTopLeft r p =
     QRect (pt_x p) (pt_y p) (x2 r + (pt_x p - x1 r)) (y2 r + (pt_y p - y1 r))"

definition setLeft :: "QRect \<Rightarrow> int \<Rightarrow> QRect" where
  "setLeft r v = QRect v (y1 r) (x2 r) (y2 r)"

definition setTop :: "QRect \<Rightarrow> int \<Rightarrow> QRect" where
  "setTop r v = QRect (x1 r) v (x2 r) (y2 r)"

definition setRight :: "QRect \<Rightarrow> int \<Rightarrow> QRect" where
  "setRight r v = QRect (x1 r) (y1 r) v (y2 r)"

definition setBottom :: "QRect \<Rightarrow> int \<Rightarrow> QRect" where
  "setBottom r v = QRect (x1 r) (y1 r) (x2 r) v"

definition setTopLeft :: "QRect \<Rightarrow> QPoint \<Rightarrow> QRect" where
  "setTopLeft r p = setTop (setLeft r (pt_x p)) (pt_y p)"

definition setTopRight :: "QRect \<Rightarrow> QPoint \<Rightarrow> QRect" where
  "setTopRight r p = setTop (setRight r (pt_x p)) (pt_y p)"

definition setBottomLeft :: "QRect \<Rightarrow> QPoint \<Rightarrow> QRect" where
  "setBottomLeft r p = setBottom (setLeft r (pt_x p)) (pt_y p)"

definition setBottomRight :: "QRect \<Rightarrow> QPoint \<Rightarrow> QRect" where
  "setBottomRight r p = setBottom (setRight r (pt_x p)) (pt_y p)"

text \<open>
  \<^verbatim>\<open>QRect::intersected\<close>, as the widget uses it (through \<^verbatim>\<open>QPixmap::copy\<close>): on two
  rectangles that are not empty. No common pixel gives the default rectangle.
\<close>

definition intersected :: "QRect \<Rightarrow> QRect \<Rightarrow> QRect" where
  "intersected r s =
     (if max (x1 r) (x1 s) > min (x2 r) (x2 s) \<or> max (y1 r) (y1 s) > min (y2 r) (y2 s)
      then QRect_default
      else QRect (max (x1 r) (x1 s)) (max (y1 r) (y1 s)) (min (x2 r) (x2 s)) (min (y2 r) (y2 s)))"

section \<open>Selection handles\<close>

datatype HandlePosition =
  None_Handle | TopLeft | TopRight | BottomLeft | BottomRight | Top | Bottom | Left | Right

text \<open>
  \<^verbatim>\<open>ScreenshotDisplay::handleAtPoint\<close>: \<^verbatim>\<open>handleRect\<close> is the square of side 20 at the
  origin; it is translated to each handle position and tested in the order of the source.
\<close>

definition handleSize :: int where
  "handleSize = 20"

definition handleRect :: QRect where
  "handleRect = QRect_sized (QPoint 0 0) (QSize handleSize handleSize)"

definition handleAtPoint :: "QRect \<Rightarrow> QPoint \<Rightarrow> HandlePosition" where
  "handleAtPoint selectionRect point =
     (if contains (translated handleRect (topLeft selectionRect)) point then TopLeft
      else if contains (translated handleRect (topRight selectionRect)) point then TopRight
      else if contains (translated handleRect (bottomLeft selectionRect)) point then BottomLeft
      else if contains (translated handleRect (bottomRight selectionRect)) point then BottomRight
      else if contains (translated handleRect
                 (padd (topLeft selectionRect) (QPoint (cdiv (width selectionRect) 2) 0))) point
           then Top
      else if contains (translated handleRect
                 (padd (bottomLeft selectionRect) (QPoint (cdiv (width selectionRect) 2) 0))) point
           then Bottom
      else if contains (translated handleRect
                 (padd (topLeft selectionRect) (QPoint 0 (cdiv (height selectionRect) 2)))) point
           then Left
      else if contains (translated handleRect
                 (padd (topRight selectionRect) (QPoint 0 (cdiv (height selectionRect) 2)))) point
           then Right
      else None_Handle)"

section \<open>Pixmaps and painters\<close>

text \<open>
  Rasterisation is the toolkit's work. A pixmap is modelled by how it was made: an
  opaque image (the screen grab handed to the widget), a fill, the painter calls made on
  a pixmap, or a crop. The painter calls record the pen, brush and font in force.
\<close>

datatype QColor = QColor int int int int

definition black :: QColor where
  "black = QColor 0 0 0 255"

definition red :: QColor where
  "red = QColor 255 0 0 255"

definition transparent :: QColor where
  "transparent = QColor 0 0 0 0"

datatype PenStyle = SolidLine | DashLine

datatype PenCapStyle = SquareCap | RoundCap

datatype PenJoinStyle = BevelJoin | RoundJoin

datatype QPen = QPen QColor int PenStyle PenCapStyle PenJoinStyle

datatype QBrush = NoBrush | SolidPattern QColor

datatype QFont = QFont (family: string) (pointSize: int)

text \<open>\<^verbatim>\<open>QPen(color)\<close> and \<^verbatim>\<open>QPen(color, width, style)\<close> take the toolkit's defaults.\<close>

definition QPen_color :: "QColor \<Rightarrow> QPen" where
  "QPen_color c = QPen c 1 SolidLine SquareCap BevelJoin"

definition QPen_styled :: "QColor \<Rightarrow> int \<Rightarrow> PenStyle \<Rightarrow> QPen" where
  "QPen_styled c w s = QPen c w s SquareCap BevelJoin"

datatype QPixmap =
    Null_Pixmap
  | Grab QSize nat
  | Filled QSize QColor
  | Painted QPixmap "paint_op list"
  | Cropped QPixmap QRect
and paint_op =
    DrawLine QPen QPoint QPoint
  | DrawRect QPen QBrush QRect
  | DrawEllipse QPen QBrush QRect
  | DrawEllipseAt QPen QBrush QPoint int int
  | DrawPolygon QPen QBrush "QPoint list"
  | DrawPath QPen QBrush "QPoint list"
  | DrawText QFont QPen QPoint string
  | DrawTextIn QFont QPen QRect string
  | DrawPixmap QPoint QPixmap

fun pixmap_size :: "QPixmap \<Rightarrow> QSize" where
  "pixmap_size Null_Pixmap = QSize 0 0"
| "pixmap_size (Grab s n) = s"
| "pixmap_size (Filled s c) = s"
| "pixmap_size (Painted pm ops) = pixmap_size pm"
| "pixmap_size (Cropped pm r) = size_r r"

definition pixmap_isNull :: "QPixmap \<Rightarrow> bool" where
  "pixmap_isNull pm \<longleftrightarrow> sz_w (pixmap_size pm) \<le> 0 \<or> sz_h (pixmap_size pm) \<le> 0"

text \<open>
  \<^verbatim>\<open>QPixmap::copy(rect)\<close>: the part of the pixmap inside \<^verbatim>\<open>rect\<close>; an empty
  \<^verbatim>\<open>rect\<close> (the default argument) means the whole pixmap. A copy of the whole pixmap
  is a pixmap of the same contents: pixmaps are values.
\<close>

definition copy_pm :: "QPixmap \<Rightarrow> QRect \<Rightarrow> QPixmap" where
  "copy_pm pm rect =
     (if pixmap_isNull pm then Null_Pixmap
      else
        let whole = QRect_sized (QPoint 0 0) (pixmap_size pm);
            r = (if \<not> isEmpty rect then intersected whole rect else whole)
        in if r = whole then pm else Cropped pm r)"

record QPainter =
  p_pen :: QPen
  p_brush :: QBrush
  p_font :: QFont
  p_ops :: "paint_op list"

definition defaultFont :: QFont where
  "defaultFont = QFont [] 0"

definition QPainter_begin :: QPainter where
  "QPainter_begin = \<lparr>p_pen = QPen_color black, p_brush = NoBrush, p_font = defaultFont, p_ops = []\<rparr>"

definition setPen :: "QPen \<Rightarrow> QPainter \<Rightarrow> QPainter" where
  "setPen p painter = painter\<lparr>p_pen := p\<rparr>"

definition setBrush :: "QBrush \<Rightarrow> QPainter \<Rightarrow> QPainter" where
  "setBrush b painter = painter\<lparr>p_brush := b\<rparr>"

definition setFont :: "QFont \<Rightarrow> QPainter \<Rightarrow> QPainter" where
  "setFont f painter = painter\<lparr>p_font := f\<rparr>"

definition emit_op :: "paint_op \<Rightarrow> QPainter \<Rightarrow> QPainter" where
  "emit_op operation painter = painter\<lparr>p_ops := p_ops painter @ [operation]\<rparr>"

definition drawLine :: "QPoint \<Rightarrow> QPoint \<Rightarrow> QPainter \<Rightarrow> QPainter" where
  "drawLine a b painter = emit_op (DrawLine (p_pen painter) a b) painter"

definition drawRect :: "QRect \<Rightarrow> QPainter \<Rightarrow> QPainter" where
  "drawRect r painter = emit_op (DrawRect (p_pen painter) (p_brush painter) r) painter"

definition drawEllipse :: "QRect \<Rightarrow> QPainter \<Rightarrow> QPainter" where
  "drawEllipse r painter = emit_op (DrawEllipse (p_pen painter) (p_brush painter) r) painter"

definition drawEllipseAt :: "QPoint \<Rightarrow> int \<Rightarrow> int \<Rightarrow> QPainter \<Rightarrow> QPainter" where
  "drawEllipseAt c rx ry painter =
     emit_op (DrawEllipseAt (p_pen painter) (p_brush painter) c rx ry) painter"

definition drawPolygon :: "QPoint list \<Rightarrow> QPainter \<Rightarrow> QPainter" where
  "drawPolygon ps painter = emit_op (DrawPolygon (p_pen painter) (p_brush painter) ps) painter"

definition drawPath :: "QPoint list \<Rightarrow> QPainter \<Rightarrow> QPainter" where
  "drawPath ps painter = emit_op (DrawPath (p_pen painter) (p_brush painter) ps) painter"

definition drawText :: "QPoint \<Rightarrow> string \<Rightarrow> QPainter \<Rightarrow> QPainter" where
  "drawText p s painter = emit_op (DrawText (p_font painter) (p_pen painter) p s) painter"

definition drawTextIn :: "QRect \<Rightarrow> string \<Rightarrow> QPainter \<Rightarrow> QPainter" where
  "drawTextIn r s painter = emit_op (DrawTextIn (p_font painter) (p_pen painter) r s) painter"

definition drawPixmap :: "QPoint \<Rightarrow> QPixmap \<Rightarrow> QPainter \<Rightarrow> QPainter" where
  "drawPixmap p pm painter = emit_op (DrawPixmap p pm) painter"

text \<open>
  The pixmap a painter leaves behind when it has painted on \<open>pm\<close>; no painter call
  leaves the contents as they were.
\<close>

definition painted :: "QPixmap \<Rightarrow> QPainter \<Rightarrow> QPixmap" where
  "painted pm painter = (if p_ops painter = [] then pm else Painted pm (p_ops painter))"

section \<open>The widget's state\<close>

datatype Tool = None_Tool | Pen | Rectangle | Ellipse | Line | Arrow | Text

datatype CursorShape =
  ArrowCursor | CrossCursor | SizeFDiagCursor | SizeBDiagCursor | SizeVerCursor | SizeHorCursor

text \<open>
  Modelled from the spec: the toolbar (\<^verbatim>\<open>Editor\<close>), whose source is not at hand. It is
  a collaborator that holds the active tool and the current colour; the widget reads
  both (\<^verbatim>\<open>getCurrentTool\<close>, \<^verbatim>\<open>getCurrentColor\<close>), and shows, hides and moves it.
\<close>

record Editor =
  ed_currentTool :: Tool
  ed_currentColor :: QColor
  ed_hidden :: bool
  ed_pos :: QPoint

text \<open>The editable field of a text session: its font, colour, contents and place.\<close>

record QTextEdit =
  te_font :: QFont
  te_textColor :: QColor
  te_plainText :: string
  te_pos :: QPoint

text \<open>
  What the platform computes and the widget only reads: font metrics, and the double
  arithmetic of \<^verbatim>\<open>drawArrow\<close> (\<^verbatim>\<open>atan2\<close>, \<^verbatim>\<open>cos\<close>, \<^verbatim>\<open>sin\<close> and the conversion of
  the products to \<^verbatim>\<open>int\<close>), which gives the offset of a wing point from the end of the
  arrow, for \<open>+\<close> (\<open>True\<close>) or \<open>-\<close> (\<open>False\<close>) the head angle.
\<close>

record Platform =
  fm_ascent :: "QFont \<Rightarrow> int"
  fm_height :: "QFont \<Rightarrow> int"
  fm_size :: "QFont \<Rightarrow> string \<Rightarrow> QSize"
  wingOffset :: "QPoint \<Rightarrow> QPoint \<Rightarrow> int \<Rightarrow> bool \<Rightarrow> QPoint"

text \<open>
  The members of \<^verbatim>\<open>ScreenshotDisplay\<close>, and what its handlers do to the outside: the
  cursor shape, the tooltip (its place and the size it shows as \<^verbatim>\<open>Size: W x H\<close>), the
  clipboard, the files written, and whether the display has been closed.
\<close>

record ScreenshotDisplay =
  originalPixmap :: QPixmap
  selectionStarted :: bool
  movingSelection :: bool
  currentHandle :: HandlePosition
  drawing :: bool
  shapeDrawing :: bool
  currentColor :: QColor
  currentTool :: Tool
  borderWidth :: int
  drawingPixmap :: QPixmap
  currentFont :: QFont
  text_m :: string
  textEdit :: "QTextEdit option"
  selectionRect :: QRect
  origin :: QPoint
  lastPoint :: QPoint
  drawingEnd :: QPoint
  currentShapeRect :: QRect
  handleOffset :: QPoint
  selectionOffset :: QPoint
  textEditPosition :: QPoint
  textBoundingRect :: QRect
  cursorPosition :: QPoint
  drawingPath :: "QPoint list"
  undoStack :: "QPixmap list"
  editor :: Editor
  cursor :: CursorShape
  toolTip :: "(QPoint \<times> QSize) option"
  clipboard :: "QPixmap option"
  savedFiles :: "(string \<times> QPixmap) list"
  closed :: bool

section \<open>Undo, closing, and the small helpers\<close>

text \<open>
  \<^verbatim>\<open>update()\<close> only asks for a repaint, and \<^verbatim>\<open>paintEvent\<close> changes no member, so the
  handlers below leave it out. The undo stack is a list whose head is the top.
\<close>

definition saveStateForUndo :: "ScreenshotDisplay \<Rightarrow> ScreenshotDisplay" where
  "saveStateForUndo st = st\<lparr>undoStack := drawingPixmap st # undoStack st\<rparr>"

definition undo :: "ScreenshotDisplay \<Rightarrow> ScreenshotDisplay" where
  "undo st =
     (if undoStack st \<noteq> []
      then st\<lparr>drawingPixmap := hd (undoStack st), undoStack := tl (undoStack st)\<rparr>
      else st)"

text \<open>
  \<^verbatim>\<open>close()\<close> delivers the close event: the toolbar is hidden, an open text field is
  deleted, and the display is closed.
\<close>

definition closeEvent :: "ScreenshotDisplay \<Rightarrow> ScreenshotDisplay" where
  "closeEvent st =
     st\<lparr>editor := (editor st)\<lparr>ed_hidden := True\<rparr>, textEdit := None, closed := True\<rparr>"

definition close_display :: "ScreenshotDisplay \<Rightarrow> ScreenshotDisplay" where
  "close_display st = closeEvent st"

definition updateTooltip :: "ScreenshotDisplay \<Rightarrow> ScreenshotDisplay" where
  "updateTooltip st =
     (if isValid (selectionRect st)
      then st\<lparr>toolTip := Some (padd (topRight (selectionRect st)) (QPoint 10 (- 20)),
                                 size_r (selectionRect st))\<rparr>
      else st)"

definition updateEditorPosition :: "ScreenshotDisplay \<Rightarrow> ScreenshotDisplay" where
  "updateEditorPosition st =
     (if isValid (selectionRect st)
      then st\<lparr>editor := (editor st)\<lparr>ed_pos := padd (topRight (selectionRect st)) (QPoint 10 10)\<rparr>\<rparr>
      else st)"

fun cursorForHandle :: "HandlePosition \<Rightarrow> CursorShape" where
  "cursorForHandle TopLeft = SizeFDiagCursor"
| "cursorForHandle BottomRight = SizeFDiagCursor"
| "cursorForHandle TopRight = SizeBDiagCursor"
| "cursorForHandle BottomLeft = SizeBDiagCursor"
| "cursorForHandle Top = SizeVerCursor"
| "cursorForHandle Bottom = SizeVerCursor"
| "cursorForHandle Left = SizeHorCursor"
| "cursorForHandle Right = SizeHorCursor"
| "cursorForHandle None_Handle = ArrowCursor"

definition onToolSelected :: "Tool \<Rightarrow> ScreenshotDisplay \<Rightarrow> ScreenshotDisplay" where
  "onToolSelected tool st =
     st\<lparr>currentTool := tool, cursor := (if tool = None_Tool then ArrowCursor else CrossCursor)\<rparr>"

text \<open>
  Modelled from the spec: \<^verbatim>\<open>Editor::deselectTools\<close> belongs to the toolbar, whose source
  is not at hand. The tool mode changes only through the toolbar's tool-selection events,
  so deselecting makes \<^verbatim>\<open>None\<close> the toolbar's tool and tells the widget.
\<close>

definition deselectTools :: "ScreenshotDisplay \<Rightarrow> ScreenshotDisplay" where
  "deselectTools st = onToolSelected None_Tool (st\<lparr>editor := (editor st)\<lparr>ed_currentTool := None_Tool\<rparr>\<rparr>)"

section \<open>Resizing the selection\<close>

fun resizeSelection :: "HandlePosition \<Rightarrow> QRect \<Rightarrow> QPoint \<Rightarrow> QRect" where
  "resizeSelection TopLeft r point = normalized (setTopLeft r point)"
| "resizeSelection TopRight r point = normalized (setTopRight r point)"
| "resizeSelection BottomLeft r point = normalized (setBottomLeft r point)"
| "resizeSelection BottomRight r point = normalized (setBottomRight r point)"
| "resizeSelection Top r point = normalized (setTop r (pt_y point))"
| "resizeSelection Bottom r point = normalized (setBottom r (pt_y point))"
| "resizeSelection Left r point = normalized (setLeft r (pt_x point))"
| "resizeSelection Right r point = normalized (setRight r (pt_x point))"
| "resizeSelection None_Handle r point = normalized r"

definition resizeSelection_st :: "ScreenshotDisplay \<Rightarrow> QPoint \<Rightarrow> ScreenshotDisplay" where
  "resizeSelection_st st point =
     st\<lparr>selectionRect := resizeSelection (currentHandle st) (selectionRect st) point\<rparr>"

section \<open>Text sessions\<close>

text \<open>\<^verbatim>\<open>QString::split\<close> on a separator keeps the empty parts.\<close>

fun split_on :: "char \<Rightarrow> string \<Rightarrow> string list" where
  "split_on c [] = [[]]"
| "split_on c (x # xs) =
     (if x = c then [] # split_on c xs
      else (case split_on c xs of [] \<Rightarrow> [[x]] | l # ls \<Rightarrow> (x # l) # ls))"

definition newline :: char where
  "newline = CHR 0x0A"

text \<open>The loop of \<^verbatim>\<open>finalizeTextEdit\<close>: one \<^verbatim>\<open>drawText\<close> a line, then one line height down.\<close>

fun drawLines :: "int \<Rightarrow> string list \<Rightarrow> QPoint \<Rightarrow> QPainter \<Rightarrow> QPainter" where
  "drawLines h [] currentPos painter = painter"
| "drawLines h (line # lines) currentPos painter =
     drawLines h lines (QPoint (pt_x currentPos) (pt_y currentPos + h))
       (drawText currentPos line painter)"

definition finalizeTextEdit :: "Platform \<Rightarrow> ScreenshotDisplay \<Rightarrow> ScreenshotDisplay" where
  "finalizeTextEdit pf st =
     (case textEdit st of
        None \<Rightarrow> st
      | Some te \<Rightarrow>
          let st1 = saveStateForUndo st;
              painter = setPen (QPen_color (ed_currentColor (editor st1)))
                          (setFont (te_font te) QPainter_begin);
              lines = split_on newline (te_plainText te);
              currentPos = textEditPosition st1;
              currentPos = QPoint (pt_x currentPos) (pt_y currentPos + fm_ascent pf (te_font te));
              painter = drawLines (fm_height pf (te_font te)) lines currentPos painter
          in st1\<lparr>drawingPixmap := painted (drawingPixmap st1) painter, textEdit := None\<rparr>)"

section \<open>Drawing helpers\<close>

text \<open>
  \<^verbatim>\<open>drawArrow\<close>: the line, then the filled triangle of the end point and the two wing
  points, each the end point plus the offset the platform's arithmetic gives.
\<close>

definition drawArrow ::
  "Platform \<Rightarrow> int \<Rightarrow> QColor \<Rightarrow> QPoint \<Rightarrow> QPoint \<Rightarrow> QPainter \<Rightarrow> QPainter" where
  "drawArrow pf bw color start end_p painter =
     (let painter = drawLine start end_p painter;
          arrowP1 = padd end_p (wingOffset pf start end_p bw True);
          arrowP2 = padd end_p (wingOffset pf start end_p bw False)
      in drawPolygon [end_p, arrowP1, arrowP2] (setBrush (SolidPattern color) painter))"

definition drawBorderCircle :: "int \<Rightarrow> QColor \<Rightarrow> QPoint \<Rightarrow> QPainter \<Rightarrow> QPainter" where
  "drawBorderCircle bw color position painter =
     drawEllipseAt position bw bw
       (setBrush NoBrush (setPen (QPen_styled color 2 SolidLine) painter))"

definition handlePoints :: "QRect \<Rightarrow> QPoint list" where
  "handlePoints r =
     [topLeft r, topRight r, bottomLeft r, bottomRight r,
      padd (topLeft r) (QPoint (cdiv (width r) 2) 0),
      padd (bottomLeft r) (QPoint (cdiv (width r) 2) 0),
      padd (topLeft r) (QPoint 0 (cdiv (height r) 2)),
      padd (topRight r) (QPoint 0 (cdiv (height r) 2))]"

definition drawHandles :: "QRect \<Rightarrow> QPainter \<Rightarrow> QPainter" where
  "drawHandles r painter =
     (let handleSize = 3 in
      foldl (\<lambda>pt point.
               drawRect (QRect_sized (psub point (QPoint (cdiv handleSize 2) (cdiv handleSize 2)))
                           (QSize (handleSize * 2) (handleSize * 2))) pt)
        (setBrush (SolidPattern red) painter) (handlePoints r))"

section \<open>Pointer events\<close>

definition mousePressEvent :: "Platform \<Rightarrow> ScreenshotDisplay \<Rightarrow> QPoint \<Rightarrow> ScreenshotDisplay" where
  "mousePressEvent pf st pos =
     (if ed_currentTool (editor st) = None_Tool then
        (let handle = handleAtPoint (selectionRect st) pos in
         if handle \<noteq> None_Handle then
           st\<lparr>currentHandle := handle, handleOffset := psub pos (topLeft (selectionRect st))\<rparr>
         else if contains (selectionRect st) pos then
           st\<lparr>movingSelection := True, selectionOffset := psub pos (topLeft (selectionRect st))\<rparr>
         else
           st\<lparr>selectionStarted := True, origin := pos,
              selectionRect := QRect_sized pos QSize_default,
              currentHandle := None_Handle, movingSelection := False\<rparr>)
      else if ed_currentTool (editor st) = Text then
        (case textEdit st of
           None \<Rightarrow>
             st\<lparr>textEdit := Some \<lparr>te_font = currentFont st, te_textColor = currentColor st,
                                  te_plainText = [], te_pos = pos\<rparr>,
                textEditPosition := pos\<rparr>
         | Some te \<Rightarrow> finalizeTextEdit pf st)
      else
        (let st1 = saveStateForUndo st;
             st2 = st1\<lparr>drawing := True, lastPoint := pos, origin := pos\<rparr>
         in if ed_currentTool (editor st2) \<noteq> Pen
            then st2\<lparr>shapeDrawing := True, currentShapeRect := QRect_sized (lastPoint st2) QSize_default\<rparr>
            else st2))"

definition roundPen :: "ScreenshotDisplay \<Rightarrow> QPen" where
  "roundPen st = QPen (ed_currentColor (editor st)) (borderWidth st) SolidLine RoundCap RoundJoin"

definition mouseMoveEvent :: "ScreenshotDisplay \<Rightarrow> QPoint \<Rightarrow> ScreenshotDisplay" where
  "mouseMoveEvent st pos =
     (let st1 = (if isValid (selectionRect st) \<and> ed_hidden (editor st)
                 then (let s = updateEditorPosition st in s\<lparr>editor := (editor s)\<lparr>ed_hidden := False\<rparr>\<rparr>)
                 else st);
          st2 =
            (if selectionStarted st1 then
               updateEditorPosition (updateTooltip
                 (st1\<lparr>selectionRect := normalized (QRect_corners (origin st1) pos)\<rparr>))
             else if drawing st1 \<and> ed_currentTool (editor st1) = Pen then
               (let tempPixmap = copy_pm (drawingPixmap st1) QRect_default;
                    painter = drawLine (lastPoint st1) pos (setPen (roundPen st1) QPainter_begin)
                in st1\<lparr>lastPoint := pos, drawingPixmap := painted tempPixmap painter\<rparr>)
             else if shapeDrawing st1 then
               st1\<lparr>currentShapeRect := normalized (QRect_corners (lastPoint st1) pos),
                   drawingEnd := pos\<rparr>
             else if movingSelection st1 then
               updateEditorPosition (updateTooltip
                 (st1\<lparr>selectionRect := moveTopLeft (selectionRect st1) (psub pos (selectionOffset st1))\<rparr>))
             else st1);
          handle = handleAtPoint (selectionRect st2) pos
      in st2\<lparr>cursor := cursorForHandle handle\<rparr>)"

definition mouseReleaseEvent :: "Platform \<Rightarrow> ScreenshotDisplay \<Rightarrow> QPoint \<Rightarrow> ScreenshotDisplay" where
  "mouseReleaseEvent pf st pos =
     (let st1 = st\<lparr>selectionStarted := False, movingSelection := False,
                    currentHandle := None_Handle, drawing := False\<rparr>;
          st2 =
            (if shapeDrawing st1 then
               (let st3 = saveStateForUndo st1;
                    tempPixmap = copy_pm (drawingPixmap st3) QRect_default;
                    painter = setPen (roundPen st3) QPainter_begin;
                    painter =
                      (case ed_currentTool (editor st3) of
                         Rectangle \<Rightarrow> drawRect (currentShapeRect st3) painter
                       | Ellipse \<Rightarrow> drawEllipse (currentShapeRect st3) painter
                       | Line \<Rightarrow> drawLine (lastPoint st3) (drawingEnd st3) painter
                       | Arrow \<Rightarrow> drawArrow pf (borderWidth st3) (ed_currentColor (editor st3))
                                    (lastPoint st3) (drawingEnd st3) painter
                       | _ \<Rightarrow> painter)
                in st3\<lparr>drawingPixmap := painted tempPixmap painter, shapeDrawing := False\<rparr>)
             else st1)
      in updateTooltip st2)"

text \<open>A draw gesture: one pointer-down, the pointer-moves in order, one pointer-up.\<close>

definition gesture ::
  "Platform \<Rightarrow> ScreenshotDisplay \<Rightarrow> QPoint \<Rightarrow> QPoint list \<Rightarrow> QPoint \<Rightarrow> ScreenshotDisplay" where
  "gesture pf st down moves up =
     mouseReleaseEvent pf (foldl mouseMoveEvent (mousePressEvent pf st down) moves) up"

section \<open>Clipboard and keys\<close>

datatype Key = Key_Escape | Key_C | Key_Other

text \<open>
  \<^verbatim>\<open>copySelectionToClipboard\<close>: the annotation layer is painted over a copy of the grab;
  the clipboard takes the part inside a valid selection, or all of it.
\<close>

definition copySelectionToClipboard :: "ScreenshotDisplay \<Rightarrow> ScreenshotDisplay" where
  "copySelectionToClipboard st =
     (let resultPixmap = painted (originalPixmap st)
                           (drawPixmap (QPoint 0 0) (drawingPixmap st) QPainter_begin);
          st1 = (if isValid (selectionRect st)
                 then st\<lparr>clipboard := Some (copy_pm resultPixmap (selectionRect st))\<rparr>
                 else st\<lparr>clipboard := Some resultPixmap\<rparr>)
      in close_display st1)"

text \<open>\<open>ctrl\<close>: the modifiers of the event are exactly \<^verbatim>\<open>Qt::ControlModifier\<close>.\<close>

definition keyPressEvent :: "Platform \<Rightarrow> ScreenshotDisplay \<Rightarrow> Key \<Rightarrow> bool \<Rightarrow> ScreenshotDisplay" where
  "keyPressEvent pf st key ctrl =
     (if ed_currentTool (editor st) \<noteq> None_Tool \<and> key = Key_Escape then
        (if ed_currentTool (editor st) = Text \<and> textEdit st \<noteq> None
         then finalizeTextEdit pf st
         else (deselectTools st)\<lparr>cursor := ArrowCursor\<rparr>)
      else if key = Key_Escape then close_display st
      else if key = Key_C \<and> ctrl then close_display (copySelectionToClipboard st)
      else st)"

text \<open>
  The Escape shortcut of \<^verbatim>\<open>configureShortcuts\<close>. A shortcut registered on the widget
  takes its key before \<^verbatim>\<open>keyPressEvent\<close> sees it, so this is what the Escape key runs.
\<close>

definition escapeShortcut :: "ScreenshotDisplay \<Rightarrow> ScreenshotDisplay" where
  "escapeShortcut st =
     (if ed_currentTool (editor st) \<noteq> None_Tool
      then (deselectTools st)\<lparr>cursor := ArrowCursor\<rparr>
      else close_display st)"

section \<open>Saving\<close>

text \<open>
  The configuration, the helper that makes a file name unique and the save dialog are
  collaborators: the handler is given the configuration and the two functions. The dialog
  answers with the chosen path, empty when the user cancels. A file written is recorded
  with the pixmap it holds.
\<close>

record Config =
  default_save_folder :: string
  file_extension :: string

definition saveFileFilter :: "string \<Rightarrow> string" where
  "saveFileFilter fileExtension =
     (if fileExtension = ''png'' then ''PNG Files (*.png);;''
      else if fileExtension = ''jpg'' \<or> fileExtension = ''jpeg''
      then ''JPEG Files (*.jpg *.jpeg);;''
      else ''PNG Files (*.png);;JPEG Files (*.jpg *.jpeg);;'')"

definition onSaveRequested ::
  "Config \<Rightarrow> (string \<Rightarrow> string \<Rightarrow> string \<Rightarrow> string) \<Rightarrow> (string \<Rightarrow> string \<Rightarrow> string)
     \<Rightarrow> ScreenshotDisplay \<Rightarrow> ScreenshotDisplay" where
  "onSaveRequested config getUniqueFilePath getSaveFileName st =
     (let defaultSaveFolder = default_save_folder config;
          fileExtension = file_extension config;
          defaultFileName = getUniqueFilePath defaultSaveFolder ''screenshot'' fileExtension;
          fileFilter = saveFileFilter fileExtension;
          filePath = getSaveFileName defaultFileName fileFilter
      in if filePath \<noteq> []
         then close_display (st\<lparr>savedFiles := savedFiles st @ [(filePath, originalPixmap st)]\<rparr>)
         else st)"

section \<open>Painting the widget\<close>

text \<open>
  \<^verbatim>\<open>paintEvent\<close> changes no member; its result is the list of painter calls made on the
  widget. \<open>pointer\<close> is the pointer's position in the widget.
\<close>

definition paintEvent :: "Platform \<Rightarrow> ScreenshotDisplay \<Rightarrow> QPoint \<Rightarrow> paint_op list" where
  "paintEvent pf st pointer =
     (let painter = drawPixmap (QPoint 0 0) (drawingPixmap st)
                      (drawPixmap (QPoint 0 0) (originalPixmap st) QPainter_begin);
          painter =
            (if isValid (selectionRect st)
             then drawHandles (selectionRect st)
                    (drawRect (selectionRect st) (setPen (QPen_styled red 2 DashLine) painter))
             else painter);
          painter =
            (if shapeDrawing st then
               (let painter = setPen (QPen_styled (ed_currentColor (editor st)) (borderWidth st) SolidLine)
                                painter
                in case ed_currentTool (editor st) of
                     Pen \<Rightarrow> drawPath (drawingPath st) painter
                   | Rectangle \<Rightarrow> drawRect (currentShapeRect st) (setBrush NoBrush painter)
                   | Ellipse \<Rightarrow> drawEllipse (currentShapeRect st) (setBrush NoBrush painter)
                   | Line \<Rightarrow> drawLine (origin st) (drawingEnd st) painter
                   | Arrow \<Rightarrow> drawArrow pf (borderWidth st) (ed_currentColor (editor st))
                                (lastPoint st) (drawingEnd st) painter
                   | Text \<Rightarrow> drawTextIn (textBoundingRect st) (text_m st)
                               (setPen (QPen_color (ed_currentColor (editor st)))
                                  (setFont (currentFont st) painter))
                   | None_Tool \<Rightarrow> painter)
             else painter);
          painter =
            (if ed_currentTool (editor st) \<noteq> None_Tool
             then drawEllipseAt (cursorPosition st) (cdiv (borderWidth st) 2) (cdiv (borderWidth st) 2)
                    (setBrush (SolidPattern transparent)
                       (drawBorderCircle (borderWidth st) (ed_currentColor (editor st)) pointer painter))
             else painter)
      in p_ops painter)"

section \<open>Construction\<close>

text \<open>
  The constructor, given the screen grab and the toolbar as it has just been made. The
  annotation layer is a transparent pixmap of the grab's size; the selection rectangle is
  the default rectangle.
\<close>

definition ScreenshotDisplay_new :: "Platform \<Rightarrow> QPixmap \<Rightarrow> Editor \<Rightarrow> ScreenshotDisplay" where
  "ScreenshotDisplay_new pf pixmap ed =
     \<lparr>originalPixmap = pixmap, selectionStarted = False, movingSelection = False,
      currentHandle = None_Handle, drawing = False, shapeDrawing = False,
      currentColor = black, currentTool = None_Tool, borderWidth = 5,
      drawingPixmap = Filled (pixmap_size pixmap) transparent,
      currentFont = QFont ''Arial'' 16, text_m = ''Editable Text'', textEdit = None,
      selectionRect = QRect_default, origin = QPoint 0 0, lastPoint = QPoint 0 0,
      drawingEnd = QPoint 0 0, currentShapeRect = QRect_default,
      handleOffset = QPoint 0 0, selectionOffset = QPoint 0 0,
      textEditPosition = QPoint 0 0,
      textBoundingRect = QRect_sized (QPoint 100 100) (fm_size pf (QFont ''Arial'' 16) ''Editable Text''),
      cursorPosition = QPoint 0 0, drawingPath = [], undoStack = [], editor = ed,
      cursor = ArrowCursor, toolTip = None, clipboard = None, savedFiles = [], closed = False\<rparr>"

section \<open>Notions the properties are stated with\<close>

text \<open>The eight handles in the order of the hit-test, each with its position.\<close>

definition handle_order :: "HandlePosition list" where
  "handle_order = [TopLeft, TopRight, BottomLeft, BottomRight, Top, Bottom, Left, Right]"

definition handles :: "QRect \<Rightarrow> (HandlePosition \<times> QPoint) list" where
  "handles r = zip handle_order (handlePoints r)"

text \<open>
  The square of 20 by 20 pixels whose top-left pixel is \<open>c\<close>, and the square of the same
  size centred on \<open>c\<close>.
\<close>

definition in_square_at :: "QPoint \<Rightarrow> QPoint \<Rightarrow> bool" where
  "in_square_at c p \<longleftrightarrow>
     pt_x c \<le> pt_x p \<and> pt_x p \<le> pt_x c + 19 \<and> pt_y c \<le> pt_y p \<and> pt_y p \<le> pt_y c + 19"

definition in_square_centred :: "QPoint \<Rightarrow> QPoint \<Rightarrow> bool" where
  "in_square_centred c p \<longleftrightarrow>
     pt_x c - 10 \<le> pt_x p \<and> pt_x p \<le> pt_x c + 9 \<and> pt_y c - 10 \<le> pt_y p \<and> pt_y p \<le> pt_y c + 9"

definition first_handle :: "(QPoint \<Rightarrow> QPoint \<Rightarrow> bool) \<Rightarrow> QRect \<Rightarrow> QPoint \<Rightarrow> HandlePosition" where
  "first_handle region r p =
     (case find (\<lambda>(h, c). region c p) (handles r) of
        None \<Rightarrow> None_Handle
      | Some (h, c) \<Rightarrow> h)"

text \<open>
  The hit-test in the words of the specification: a square of side 20 centred on each
  handle position, the handles tried in order, the first match returned.
\<close>

definition handleAtPoint_spec :: "QRect \<Rightarrow> QPoint \<Rightarrow> HandlePosition" where
  "handleAtPoint_spec r p = first_handle in_square_centred r p"

text \<open>A rectangle is normalized when neither its width nor its height is negative.\<close>

definition is_normalized :: "QRect \<Rightarrow> bool" where
  "is_normalized r \<longleftrightarrow> 0 \<le> width r \<and> 0 \<le> height r"

text \<open>
  The rectangle that a pointer-down gives a new selection: \<^verbatim>\<open>QRect(origin, QSize())\<close>,
  of width and height \<open>-1\<close>.
\<close>

definition is_reset :: "QRect \<Rightarrow> bool" where
  "is_reset r \<longleftrightarrow> width r = - 1 \<and> height r = - 1"

text \<open>
  The operations that can change the selection rectangle. (\<^verbatim>\<open>resizeSelection\<close> is
  defined by the widget; no pointer handler calls it.)
\<close>

datatype SelectionOp = PointerDown QPoint | PointerMove QPoint | PointerUp QPoint | Resize QPoint

fun apply_op :: "Platform \<Rightarrow> ScreenshotDisplay \<Rightarrow> SelectionOp \<Rightarrow> ScreenshotDisplay" where
  "apply_op pf st (PointerDown p) = mousePressEvent pf st p"
| "apply_op pf st (PointerMove p) = mouseMoveEvent st p"
| "apply_op pf st (PointerUp p) = mouseReleaseEvent pf st p"
| "apply_op pf st (Resize p) = resizeSelection_st st p"

text \<open>The painter calls that \<^verbatim>\<open>finalizeTextEdit\<close> makes for the lines of a session.\<close>

definition text_ops :: "QFont \<Rightarrow> QPen \<Rightarrow> QPoint \<Rightarrow> int \<Rightarrow> int \<Rightarrow> string list \<Rightarrow> paint_op list" where
  "text_ops f pen anchor asc h lines =
     map (\<lambda>(i, line). DrawText f pen (QPoint (pt_x anchor) (pt_y anchor + asc + int i * h)) line)
       (enumerate 0 lines)"

text \<open>The annotation layer painted over the grab.\<close>

definition composite :: "ScreenshotDisplay \<Rightarrow> QPixmap" where
  "composite st = Painted (originalPixmap st) [DrawPixmap (QPoint 0 0) (drawingPixmap st)]"

definition inside_pixmap :: "QPixmap \<Rightarrow> QRect \<Rightarrow> bool" where
  "inside_pixmap pm r \<longleftrightarrow>
     0 \<le> x1 r \<and> 0 \<le> y1 r \<and> x2 r < sz_w (pixmap_size pm) \<and> y2 r < sz_h (pixmap_size pm)"

text \<open>The size of what is on the clipboard.\<close>

definition clipboard_size :: "ScreenshotDisplay \<Rightarrow> QSize option" where
  "clipboard_size st = (case clipboard st of None \<Rightarrow> None | Some pm \<Rightarrow> Some (pixmap_size pm))"

section \<open>A concrete display\<close>

definition example_platform :: Platform where
  "example_platform =
     \<lparr>fm_ascent = (\<lambda>f. pointSize f), fm_height = (\<lambda>f. pointSize f + 4),
      fm_size = (\<lambda>f s. QSize (int (length s) * pointSize f) (pointSize f + 4)),
      wingOffset = (\<lambda>a b bw plus. QPoint (- 8) (if plus then - 4 else 4))\<rparr>"

definition example_editor :: Editor where
  "example_editor =
     \<lparr>ed_currentTool = None_Tool, ed_currentColor = red, ed_hidden = True, ed_pos = QPoint 0 0\<rparr>"

definition example_config :: Config where
  "example_config = \<lparr>default_save_folder = ''/home/user/Pictures'', file_extension = ''png''\<rparr>"

definition example_unique :: "string \<Rightarrow> string \<Rightarrow> string \<Rightarrow> string" where
  "example_unique folder baseName extension = folder @ ''/'' @ baseName @ ''.'' @ extension"

definition example_display :: ScreenshotDisplay where
  "example_display =
     ScreenshotDisplay_new example_platform (Grab (QSize 1920 1080) 0) example_editor"

definition example_selected :: ScreenshotDisplay where
  "example_selected = example_display\<lparr>selectionRect := QRect 100 100 200 200\<rparr>"

text \<open>The selection at (10, 10) of 50 by 30 pixels, which spans from (10, 10) to (60, 40).\<close>

definition example_region :: ScreenshotDisplay where
  "example_region = example_display\<lparr>selectionRect := QRect_sized (QPoint 10 10) (QSize 50 30)\<rparr>"

definition with_tool :: "Tool \<Rightarrow> ScreenshotDisplay \<Rightarrow> ScreenshotDisplay" where
  "with_tool t st = st\<lparr>editor := (editor st)\<lparr>ed_currentTool := t\<rparr>\<rparr>"

definition example_session :: QTextEdit where
  "example_session =
     \<lparr>te_font = QFont ''Arial'' 16, te_textColor = black,
      te_plainText = [CHR ''H'', CHR ''i'', newline, CHR ''!''], te_pos = QPoint 50 50\<rparr>"

definition example_text_display :: ScreenshotDisplay where
  "example_text_display =
     (with_tool Text example_display)\<lparr>textEdit := Some example_session, textEditPosition := QPoint 50 50\<rparr>"

section \<open>Properties of the undo stack\<close>

lemma undo_after_pushes:
  "(undo ^^ length layers)
     (foldl (\<lambda>s l. (saveStateForUndo s)\<lparr>drawingPixmap := l\<rparr>) st layers) = st"
proof (induction layers arbitrary: st)
  case Nil
  show ?case by simp
next
  case (Cons l layers)
  have "undo ((saveStateForUndo st)\<lparr>drawingPixmap := l\<rparr>) = st"
    by (simp add: undo_def saveStateForUndo_def)
  with Cons.IH [of "(saveStateForUndo st)\<lparr>drawingPixmap := l\<rparr>"] show ?case
    by simp
qed

text \<open>
  C4. The undo stack is last-in first-out over snapshots of the annotation layer: a push
  puts the current layer on top of the stack and leaves the layer as it is; an undo on a
  stack with top \<open>top_s\<close> makes \<open>top_s\<close> the layer and removes it from the stack; after
  a push, any change of the layer, a second push and any further change, two undos give
  back the state before the first push (and as many undos as pushes do, for any number
  of them); an undo on an empty stack changes nothing.
\<close>

theorem undo_stack_lifo:
  "undoStack (saveStateForUndo st) = drawingPixmap st # undoStack st
   \<and> drawingPixmap (saveStateForUndo st) = drawingPixmap st
   \<and> undo (st\<lparr>undoStack := top_s # rest\<rparr>) = st\<lparr>drawingPixmap := top_s, undoStack := rest\<rparr>
   \<and> undo (undo ((saveStateForUndo ((saveStateForUndo st)\<lparr>drawingPixmap := layer_a\<rparr>))
                    \<lparr>drawingPixmap := layer_b\<rparr>)) = st
   \<and> (undo ^^ length layers)
        (foldl (\<lambda>s l. (saveStateForUndo s)\<lparr>drawingPixmap := l\<rparr>) st layers) = st
   \<and> undo (st\<lparr>undoStack := []\<rparr>) = st\<lparr>undoStack := []\<rparr>"
  by (simp add: undo_after_pushes) (simp add: undo_def saveStateForUndo_def)

theorem undo_stack_lifo_witness:
  "undo (undo ((saveStateForUndo ((saveStateForUndo example_display)
       \<lparr>drawingPixmap := Painted (drawingPixmap example_display)
                            [DrawLine (QPen_color red) (QPoint 0 0) (QPoint 5 5)]\<rparr>))
       \<lparr>drawingPixmap := Null_Pixmap\<rparr>)) = example_display
   \<and> undo (undo (undo ((saveStateForUndo ((saveStateForUndo example_display)
       \<lparr>drawingPixmap := Painted (drawingPixmap example_display)
                            [DrawLine (QPen_color red) (QPoint 0 0) (QPoint 5 5)]\<rparr>))
       \<lparr>drawingPixmap := Null_Pixmap\<rparr>))) = example_display"
proof -
  have empty: "undoStack example_display = []"
    by (simp add: example_display_def ScreenshotDisplay_new_def)
  have twice: "undo (undo ((saveStateForUndo ((saveStateForUndo example_display)
       \<lparr>drawingPixmap := Painted (drawingPixmap example_display)
                            [DrawLine (QPen_color red) (QPoint 0 0) (QPoint 5 5)]\<rparr>))
       \<lparr>drawingPixmap := Null_Pixmap\<rparr>)) = example_display"
    using undo_stack_lifo [where st = example_display and layer_b = Null_Pixmap
        and layer_a = "Painted (drawingPixmap example_display)
                         [DrawLine (QPen_color red) (QPoint 0 0) (QPoint 5 5)]"]
    by simp
  have third: "undo example_display = example_display"
    using empty by (simp add: undo_def)
  from twice third show ?thesis by simp
qed

text \<open>
  C10. An undo changes the annotation layer and the undo stack and nothing else: the
  selection rectangle, the captured image, the active tool, the current colour, the
  stroke width and the font are as before, on an empty stack or not.
\<close>

theorem undo_frame:
  "selectionRect (undo st) = selectionRect st
   \<and> originalPixmap (undo st) = originalPixmap st
   \<and> ed_currentTool (editor (undo st)) = ed_currentTool (editor st)
   \<and> currentTool (undo st) = currentTool st
   \<and> ed_currentColor (editor (undo st)) = ed_currentColor (editor st)
   \<and> currentColor (undo st) = currentColor st
   \<and> borderWidth (undo st) = borderWidth st
   \<and> currentFont (undo st) = currentFont st
   \<and> undo st = st\<lparr>drawingPixmap := drawingPixmap (undo st), undoStack := undoStack (undo st)\<rparr>"
  by (simp add: undo_def)

theorem undo_frame_witness:
  "selectionRect (undo (saveStateForUndo example_display)) = QRect_default
   \<and> originalPixmap (undo (saveStateForUndo example_display)) = Grab (QSize 1920 1080) 0
   \<and> borderWidth (undo (saveStateForUndo example_display)) = 5
   \<and> currentFont (undo example_display) = QFont ''Arial'' 16"
  using undo_frame [of "saveStateForUndo example_display"] undo_frame [of example_display]
  by (simp add: saveStateForUndo_def example_display_def ScreenshotDisplay_new_def)

section \<open>The save request\<close>

text \<open>
  C3. On a save request, when the path the user chooses is not empty, the original
  captured image and nothing of the annotation layer is written to that path, and the
  display closes; when the path is empty (the dialog was cancelled), nothing is written,
  the state is as before and the display stays open.
\<close>

theorem save_request:
  assumes "getSaveFileName
             (getUniqueFilePath (default_save_folder config) ''screenshot'' (file_extension config))
             (saveFileFilter (file_extension config)) = filePath"
  shows "(filePath \<noteq> [] \<longrightarrow>
            onSaveRequested config getUniqueFilePath getSaveFileName st =
              close_display (st\<lparr>savedFiles := savedFiles st @ [(filePath, originalPixmap st)]\<rparr>)
            \<and> savedFiles (onSaveRequested config getUniqueFilePath getSaveFileName st) =
                savedFiles st @ [(filePath, originalPixmap st)]
            \<and> closed (onSaveRequested config getUniqueFilePath getSaveFileName st)
            \<and> savedFiles (onSaveRequested config getUniqueFilePath getSaveFileName
                             (st\<lparr>drawingPixmap := layer\<rparr>)) =
                savedFiles st @ [(filePath, originalPixmap st)])
       \<and> (filePath = [] \<longrightarrow>
            onSaveRequested config getUniqueFilePath getSaveFileName st = st)"
  using assms by (simp add: onSaveRequested_def close_display_def closeEvent_def Let_def)

theorem save_request_witness:
  "savedFiles (onSaveRequested example_config example_unique (\<lambda>name flt. name) example_display) =
     [(''/home/user/Pictures/screenshot.png'', Grab (QSize 1920 1080) 0)]
   \<and> closed (onSaveRequested example_config example_unique (\<lambda>name flt. name) example_display)
   \<and> onSaveRequested example_config example_unique (\<lambda>name flt. []) example_display = example_display"
proof -
  have before: "savedFiles example_display = [] \<and> originalPixmap example_display = Grab (QSize 1920 1080) 0"
    by (simp add: example_display_def ScreenshotDisplay_new_def)
  have chosen:
    "savedFiles (onSaveRequested example_config example_unique (\<lambda>name flt. name) example_display) =
       savedFiles example_display @ [(''/home/user/Pictures/screenshot.png'', originalPixmap example_display)]
     \<and> closed (onSaveRequested example_config example_unique (\<lambda>name flt. name) example_display)"
    using save_request [where getSaveFileName = "\<lambda>name flt. name" and getUniqueFilePath = example_unique
        and config = example_config and filePath = "''/home/user/Pictures/screenshot.png''"
        and st = example_display and layer = Null_Pixmap]
    by (simp add: example_config_def example_unique_def close_display_def closeEvent_def)
  have cancelled:
    "onSaveRequested example_config example_unique (\<lambda>name flt. []) example_display = example_display"
    using save_request [where getSaveFileName = "\<lambda>name flt. []" and getUniqueFilePath = example_unique
        and config = example_config and filePath = "[]" and st = example_display and layer = Null_Pixmap]
    by simp
  from chosen cancelled before show ?thesis by simp
qed

section \<open>Hit-testing\<close>

lemma contains_handleRect:
  "contains (translated handleRect c) p = in_square_at c p"
  by (cases c; cases p)
     (auto simp: contains_def translated_def handleRect_def handleSize_def QRect_sized_def
        in_square_at_def Let_def)

lemma handleAtPoint_first: "handleAtPoint r p = first_handle in_square_at r p"
  by (simp add: handleAtPoint_def first_handle_def handles_def handle_order_def
        handlePoints_def contains_handleRect)

text \<open>
  C1 (as amended). For every point and every selection rectangle, the hit-test tries the
  eight handles in the order TopLeft, TopRight, BottomLeft, BottomRight, Top, Bottom,
  Left, Right, each with the square of 20 by 20 pixels whose top-left pixel is the handle
  position, and returns the first handle whose square holds the point. With no tool
  selected, a pointer-down on a handle's square takes that handle; otherwise one inside
  the selection rectangle starts a move; otherwise it starts a new selection at the point.
\<close>

theorem hit_test_classification:
  "handleAtPoint r p = first_handle in_square_at r p
   \<and> (ed_currentTool (editor st) = None_Tool \<longrightarrow>
        (first_handle in_square_at (selectionRect st) p \<noteq> None_Handle \<longrightarrow>
           mousePressEvent pf st p =
             st\<lparr>currentHandle := first_handle in_square_at (selectionRect st) p,
                handleOffset := psub p (topLeft (selectionRect st))\<rparr>)
        \<and> (first_handle in_square_at (selectionRect st) p = None_Handle
             \<and> contains (selectionRect st) p \<longrightarrow>
           mousePressEvent pf st p =
             st\<lparr>movingSelection := True, selectionOffset := psub p (topLeft (selectionRect st))\<rparr>)
        \<and> (first_handle in_square_at (selectionRect st) p = None_Handle
             \<and> \<not> contains (selectionRect st) p \<longrightarrow>
           mousePressEvent pf st p =
             st\<lparr>selectionStarted := True, origin := p,
                selectionRect := QRect_sized p QSize_default,
                currentHandle := None_Handle, movingSelection := False\<rparr>))"
  by (simp add: handleAtPoint_first mousePressEvent_def Let_def)

lemma first_handle_example:
  "first_handle in_square_at (QRect 100 100 200 200) (QPoint 105 105) = TopLeft
   \<and> first_handle in_square_at (QRect 100 100 200 200) (QPoint 150 150) = None_Handle
   \<and> first_handle in_square_at (QRect 100 100 200 200) (QPoint 300 300) = None_Handle"
  by (simp add: first_handle_def handles_def handle_order_def
        handlePoints_def in_square_at_def topLeft_def topRight_def
        bottomLeft_def bottomRight_def padd_def width_def height_def cdiv_def)

theorem hit_test_classification_witness:
  "handleAtPoint (QRect 100 100 200 200) (QPoint 105 105) = TopLeft
   \<and> currentHandle (mousePressEvent example_platform example_selected (QPoint 105 105)) = TopLeft
   \<and> movingSelection (mousePressEvent example_platform example_selected (QPoint 150 150))
   \<and> selectionStarted (mousePressEvent example_platform example_selected (QPoint 300 300))"
proof -
  have tool: "ed_currentTool (editor example_selected) = None_Tool"
    and sel: "selectionRect example_selected = QRect 100 100 200 200"
    by (simp_all add: example_selected_def example_display_def ScreenshotDisplay_new_def
          example_editor_def)
  have inside: "contains (QRect 100 100 200 200) (QPoint 150 150)"
    and outside: "\<not> contains (QRect 100 100 200 200) (QPoint 300 300)"
    by (simp_all add: contains_def)
  from hit_test_classification [where r = "QRect 100 100 200 200" and p = "QPoint 105 105"
         and st = example_selected and pf = example_platform]
       hit_test_classification [where r = "QRect 100 100 200 200" and p = "QPoint 150 150"
         and st = example_selected and pf = example_platform]
       hit_test_classification [where r = "QRect 100 100 200 200" and p = "QPoint 300 300"
         and st = example_selected and pf = example_platform]
       tool sel inside outside first_handle_example
  show ?thesis by simp
qed

text \<open>
  The squares are not centred on the handle positions: a point five pixels up and left of
  the top-left corner is in the centred square and in none of the tested ones, and a
  point fifteen pixels down and right is in the tested square and in no centred one.
\<close>

theorem hit_test_centred_counterexample:
  "handleAtPoint_spec (QRect 100 100 200 200) (QPoint 95 95) = TopLeft
   \<and> handleAtPoint (QRect 100 100 200 200) (QPoint 95 95) = None_Handle
   \<and> handleAtPoint_spec (QRect 100 100 200 200) (QPoint 115 115) = None_Handle
   \<and> handleAtPoint (QRect 100 100 200 200) (QPoint 115 115) = TopLeft"
  by (simp add: handleAtPoint_spec_def handleAtPoint_first first_handle_def handles_def handle_order_def
        handlePoints_def in_square_at_def in_square_centred_def topLeft_def topRight_def
        bottomLeft_def bottomRight_def padd_def width_def height_def cdiv_def)

text \<open>
  C9. The rectangle a display starts with has width and height zero and is not valid; the
  hit-test on it has no validity check and answers TopLeft at the point (5, 5), so that a
  pointer-down there takes the handle of a selection that is not drawn, and starts no new
  selection; a pointer-move there shows the resize cursor.
\<close>

theorem degenerate_hit_test:
  "isNull QRect_default \<and> width QRect_default = 0 \<and> height QRect_default = 0
   \<and> \<not> isValid QRect_default
   \<and> handleAtPoint QRect_default (QPoint 5 5) = TopLeft
   \<and> selectionRect example_display = QRect_default
   \<and> currentHandle (mousePressEvent example_platform example_display (QPoint 5 5)) = TopLeft
   \<and> \<not> selectionStarted (mousePressEvent example_platform example_display (QPoint 5 5))
   \<and> cursor (mouseMoveEvent example_display (QPoint 5 5)) = SizeFDiagCursor"
  by (simp add: isNull_def isValid_def width_def height_def QRect_default_def handleAtPoint_def contains_def
        translated_def handleRect_def handleSize_def QRect_sized_def topLeft_def Let_def
        mousePressEvent_def mouseMoveEvent_def example_display_def ScreenshotDisplay_new_def example_editor_def)

text \<open>Painting does check: with no valid selection, neither outline nor handle is drawn.\<close>

lemma invalid_selection_not_drawn:
  assumes "\<not> isValid (selectionRect st)" "\<not> shapeDrawing st" "ed_currentTool (editor st) = None_Tool"
  shows "paintEvent pf st pointer =
           [DrawPixmap (QPoint 0 0) (originalPixmap st), DrawPixmap (QPoint 0 0) (drawingPixmap st)]"
  using assms
  by (simp add: paintEvent_def drawPixmap_def emit_op_def QPainter_begin_def Let_def)

section \<open>Undo snapshots of a draw gesture\<close>

lemma mouseMoveEvent_undoStack: "undoStack (mouseMoveEvent st p) = undoStack st"
  by (simp add: mouseMoveEvent_def Let_def updateEditorPosition_def updateTooltip_def)

lemma mouseMoveEvent_tool: "ed_currentTool (editor (mouseMoveEvent st p)) = ed_currentTool (editor st)"
  by (simp add: mouseMoveEvent_def Let_def updateEditorPosition_def updateTooltip_def)

lemma mouseMoveEvent_shapeDrawing: "shapeDrawing (mouseMoveEvent st p) = shapeDrawing st"
  by (simp add: mouseMoveEvent_def Let_def updateEditorPosition_def updateTooltip_def)

lemma moves_undoStack: "undoStack (foldl mouseMoveEvent st ps) = undoStack st"
  by (induction ps arbitrary: st) (simp_all add: mouseMoveEvent_undoStack)

lemma moves_tool: "ed_currentTool (editor (foldl mouseMoveEvent st ps)) = ed_currentTool (editor st)"
  by (induction ps arbitrary: st) (simp_all add: mouseMoveEvent_tool)

lemma moves_shapeDrawing: "shapeDrawing (foldl mouseMoveEvent st ps) = shapeDrawing st"
  by (induction ps arbitrary: st) (simp_all add: mouseMoveEvent_shapeDrawing)

lemma release_undoStack:
  "undoStack (mouseReleaseEvent pf st p) =
     (if shapeDrawing st then drawingPixmap st # undoStack st else undoStack st)"
  by (simp add: mouseReleaseEvent_def Let_def updateTooltip_def saveStateForUndo_def)

lemma pen_gesture_one_snapshot:
  assumes "ed_currentTool (editor st) = Pen" "\<not> shapeDrawing st"
  shows "undoStack (gesture pf st down moves up) = drawingPixmap st # undoStack st"
  using assms
  by (simp add: gesture_def release_undoStack moves_shapeDrawing moves_undoStack
        mousePressEvent_def saveStateForUndo_def Let_def)

lemma mouseMoveEvent_layer:
  "ed_currentTool (editor st) \<noteq> Pen \<Longrightarrow> drawingPixmap (mouseMoveEvent st p) = drawingPixmap st"
  by (simp add: mouseMoveEvent_def Let_def updateEditorPosition_def updateTooltip_def)

lemma moves_layer:
  "ed_currentTool (editor st) \<noteq> Pen \<Longrightarrow> drawingPixmap (foldl mouseMoveEvent st ps) = drawingPixmap st"
  by (induction ps arbitrary: st) (simp_all add: mouseMoveEvent_layer mouseMoveEvent_tool)

lemma shape_gesture_two_snapshots:
  assumes "ed_currentTool (editor st) \<in> {Rectangle, Ellipse, Line, Arrow}"
  shows "undoStack (gesture pf st down moves up) = drawingPixmap st # drawingPixmap st # undoStack st"
proof -
  let ?pressed = "mousePressEvent pf st down"
  from assms have pressed:
    "shapeDrawing ?pressed" "undoStack ?pressed = drawingPixmap st # undoStack st"
    "drawingPixmap ?pressed = drawingPixmap st" "ed_currentTool (editor ?pressed) \<noteq> Pen"
    by (auto simp add: mousePressEvent_def saveStateForUndo_def Let_def)
  then show ?thesis
    by (simp add: gesture_def release_undoStack moves_shapeDrawing moves_undoStack moves_layer)
qed

text \<open>
  C2. On a display with an empty undo stack, a rectangle gesture (pointer-down, two
  pointer-moves, pointer-up) leaves two snapshots on the stack, both of the layer before
  the gesture: one pushed at pointer-down and one at the commit. The same gesture with
  the pen leaves one.
\<close>

theorem shape_gesture_snapshots:
  "undoStack (with_tool Rectangle example_display) = []
   \<and> undoStack (gesture example_platform (with_tool Rectangle example_display) (QPoint 10 10)
                   [QPoint 30 30, QPoint 50 40] (QPoint 50 40))
       = [Filled (QSize 1920 1080) transparent, Filled (QSize 1920 1080) transparent]
   \<and> undoStack (gesture example_platform (with_tool Pen example_display) (QPoint 10 10)
                   [QPoint 30 30, QPoint 50 40] (QPoint 50 40))
       = [Filled (QSize 1920 1080) transparent]"
proof -
  have start: "undoStack (with_tool Rectangle example_display) = []"
    "drawingPixmap (with_tool Rectangle example_display) = Filled (QSize 1920 1080) transparent"
    "ed_currentTool (editor (with_tool Rectangle example_display)) = Rectangle"
    "undoStack (with_tool Pen example_display) = []"
    "drawingPixmap (with_tool Pen example_display) = Filled (QSize 1920 1080) transparent"
    "ed_currentTool (editor (with_tool Pen example_display)) = Pen"
    "\<not> shapeDrawing (with_tool Pen example_display)"
    by (simp_all add: with_tool_def example_display_def ScreenshotDisplay_new_def)
  from start show ?thesis
    by (simp add: shape_gesture_two_snapshots pen_gesture_one_snapshot)
qed

section \<open>The selection rectangle stays normalized\<close>

lemma normalized_is_normalized: "is_normalized (normalized r)"
  by (simp add: is_normalized_def normalized_def width_def height_def Let_def)

lemma normalized_5_is_normalized: "is_normalized (normalized_5 r)"
  by (simp add: is_normalized_def normalized_5_def width_def height_def Let_def)

lemma resizeSelection_normalized: "is_normalized (resizeSelection h r p)"
  by (cases h) (simp_all add: normalized_is_normalized)

lemma moveTopLeft_size: "width (moveTopLeft r p) = width r \<and> height (moveTopLeft r p) = height r"
  by (simp add: moveTopLeft_def width_def height_def)

lemma moveTopLeft_normalized: "is_normalized (moveTopLeft r p) = is_normalized r"
  by (simp add: is_normalized_def moveTopLeft_size)

lemma moveTopLeft_reset: "is_reset (moveTopLeft r p) = is_reset r"
  by (simp add: is_reset_def moveTopLeft_size)

lemma move_selection:
  "selectionRect (mouseMoveEvent st p) =
     (if selectionStarted st then normalized (QRect_corners (origin st) p)
      else if drawing st \<and> ed_currentTool (editor st) = Pen then selectionRect st
      else if shapeDrawing st then selectionRect st
      else if movingSelection st then moveTopLeft (selectionRect st) (psub p (selectionOffset st))
      else selectionRect st)"
  by (simp add: mouseMoveEvent_def Let_def updateEditorPosition_def updateTooltip_def)

lemma release_selection: "selectionRect (mouseReleaseEvent pf st p) = selectionRect st"
  by (simp add: mouseReleaseEvent_def Let_def updateTooltip_def saveStateForUndo_def)

lemma press_selection:
  "selectionRect (mousePressEvent pf st p) = selectionRect st
   \<or> selectionRect (mousePressEvent pf st p) = QRect_sized p QSize_default"
  by (simp add: mousePressEvent_def Let_def finalizeTextEdit_def saveStateForUndo_def
        split: option.splits)

lemma reset_rect: "is_reset (QRect_sized p QSize_default)"
  by (simp add: is_reset_def QRect_sized_def QSize_default_def width_def height_def)

lemma op_keeps:
  assumes "is_normalized (selectionRect st) \<or> is_reset (selectionRect st)"
  shows "is_normalized (selectionRect (apply_op pf st operation))
         \<or> is_reset (selectionRect (apply_op pf st operation))"
proof (cases operation)
  case (PointerDown p)
  with assms press_selection [of pf st p] show ?thesis
    by (auto simp: reset_rect)
next
  case (PointerMove p)
  with assms show ?thesis
    by (auto simp: move_selection normalized_is_normalized moveTopLeft_normalized moveTopLeft_reset)
next
  case (PointerUp p)
  with assms show ?thesis by (simp add: release_selection)
next
  case (Resize p)
  then show ?thesis by (simp add: resizeSelection_st_def resizeSelection_normalized)
qed

lemma ops_keep:
  "is_normalized (selectionRect st) \<or> is_reset (selectionRect st) \<Longrightarrow>
   is_normalized (selectionRect (foldl (apply_op pf) st operations))
   \<or> is_reset (selectionRect (foldl (apply_op pf) st operations))"
proof (induction operations arbitrary: st)
  case Nil
  then show ?case by simp
next
  case (Cons operation operations)
  from Cons.prems have "is_normalized (selectionRect (apply_op pf st operation))
         \<or> is_reset (selectionRect (apply_op pf st operation))"
    by (rule op_keeps)
  from Cons.IH [OF this] show ?case by simp
qed

lemma press_selection_exact:
  "selectionRect (mousePressEvent pf st p) =
     (if ed_currentTool (editor st) = None_Tool
         \<and> handleAtPoint (selectionRect st) p = None_Handle
         \<and> \<not> contains (selectionRect st) p
      then QRect_sized p QSize_default
      else selectionRect st)"
  by (simp add: mousePressEvent_def Let_def finalizeTextEdit_def saveStateForUndo_def
        split: option.splits)

lemma new_display_normalized: "is_normalized (selectionRect (ScreenshotDisplay_new pf pixmap ed))"
  by (simp add: ScreenshotDisplay_new_def is_normalized_def QRect_default_def width_def height_def)

text \<open>
  A pointer-move changes the selection rectangle only while a selection is being created
  or moved: with a handle taken it leaves the rectangle as it is.
\<close>

lemma handle_drag_keeps_selection:
  "\<not> selectionStarted st \<Longrightarrow> \<not> movingSelection st \<Longrightarrow>
   selectionRect (mouseMoveEvent st p) = selectionRect st"
  by (simp add: move_selection)

text \<open>
  C7 (as amended). A display starts with a normalized selection rectangle, and after every
  sequence of pointer-downs, pointer-moves, pointer-ups and calls of
  \<^verbatim>\<open>resizeSelection\<close> the rectangle is normalized or has width and height \<open>-1\<close>, as has
  the rectangle \<^verbatim>\<open>QRect(origin, QSize())\<close> that the pointer-down beginning a new selection
  (no tool, no handle hit, pointer outside the rectangle) puts in its place; any other
  pointer-down leaves the rectangle as it is. The rectangle is normalized after every
  \<^verbatim>\<open>resizeSelection\<close>, for every handle and point, and after every pointer-move made
  while a selection is being created; a pointer-move or pointer-up on a normalized
  rectangle leaves it normalized.
\<close>

theorem selection_normalized:
  "is_normalized (selectionRect (ScreenshotDisplay_new pf pixmap ed))
   \<and> is_normalized (selectionRect (resizeSelection_st st p))
   \<and> (selectionStarted st \<longrightarrow> is_normalized (selectionRect (mouseMoveEvent st p)))
   \<and> (is_normalized (selectionRect st) \<longrightarrow>
        is_normalized (selectionRect (mouseMoveEvent st p))
        \<and> is_normalized (selectionRect (mouseReleaseEvent pf st p)))
   \<and> selectionRect (mousePressEvent pf st p) =
        (if ed_currentTool (editor st) = None_Tool
            \<and> handleAtPoint (selectionRect st) p = None_Handle
            \<and> \<not> contains (selectionRect st) p
         then QRect_sized p QSize_default
         else selectionRect st)
   \<and> is_reset (QRect_sized p QSize_default)
   \<and> (is_normalized (selectionRect st) \<or> is_reset (selectionRect st) \<longrightarrow>
        is_normalized (selectionRect (foldl (apply_op pf) st operations))
        \<or> is_reset (selectionRect (foldl (apply_op pf) st operations)))"
proof -
  have "is_normalized (selectionRect (resizeSelection_st st p))"
    by (simp add: resizeSelection_st_def resizeSelection_normalized)
  moreover have "selectionStarted st \<longrightarrow> is_normalized (selectionRect (mouseMoveEvent st p))"
    by (simp add: move_selection normalized_is_normalized)
  moreover have "is_normalized (selectionRect st) \<longrightarrow>
        is_normalized (selectionRect (mouseMoveEvent st p))"
    by (simp add: move_selection normalized_is_normalized moveTopLeft_normalized)
  moreover have "is_normalized (selectionRect st) \<longrightarrow>
        is_normalized (selectionRect (mouseReleaseEvent pf st p))"
    by (simp add: release_selection)
  moreover note new_display_normalized [of pf pixmap ed] press_selection_exact [of pf st p]
    reset_rect [of p] ops_keep [of st pf operations]
  ultimately show ?thesis by blast
qed

theorem selection_normalized_witness:
  "selectionRect (foldl (apply_op example_platform) example_display
          [PointerDown (QPoint 50 50), PointerMove (QPoint 30 80), PointerUp (QPoint 30 80)])
     = QRect 31 50 49 80
   \<and> is_normalized (QRect 31 50 49 80)
   \<and> selectionRect (resizeSelection_st (example_selected\<lparr>currentHandle := TopLeft\<rparr>) (QPoint 300 300))
     = QRect 201 201 299 299
   \<and> is_normalized (QRect 201 201 299 299)"
proof -
  have start: "is_normalized (selectionRect example_display)"
    by (simp add: example_display_def ScreenshotDisplay_new_def is_normalized_def QRect_default_def
          width_def height_def)
  have drag: "selectionRect (foldl (apply_op example_platform) example_display
          [PointerDown (QPoint 50 50), PointerMove (QPoint 30 80), PointerUp (QPoint 30 80)])
     = QRect 31 50 49 80"
    by (simp add: release_selection move_selection mousePressEvent_def Let_def
          example_display_def ScreenshotDisplay_new_def example_editor_def
          handleAtPoint_def contains_def translated_def handleRect_def handleSize_def
          QRect_sized_def QRect_default_def topLeft_def topRight_def bottomLeft_def
          bottomRight_def padd_def width_def height_def cdiv_def normalized_def QRect_corners_def)
  have resize: "selectionRect (resizeSelection_st (example_selected\<lparr>currentHandle := TopLeft\<rparr>) (QPoint 300 300))
     = QRect 201 201 299 299"
    by (simp add: resizeSelection_st_def example_selected_def setTopLeft_def setTop_def setLeft_def
          normalized_def)
  from selection_normalized [where st = example_display and pf = example_platform
         and p = "QPoint 50 50"
         and operations = "[PointerDown (QPoint 50 50), PointerMove (QPoint 30 80), PointerUp (QPoint 30 80)]"]
       start drag
  have "is_normalized (QRect 31 50 49 80) \<or> is_reset (QRect 31 50 49 80)"
    by simp
  moreover have "\<not> is_reset (QRect 31 50 49 80)"
    by (simp add: is_reset_def width_def)
  moreover from selection_normalized [where st = "example_selected\<lparr>currentHandle := TopLeft\<rparr>"
         and pf = example_platform and p = "QPoint 300 300"] resize
  have "is_normalized (QRect 201 201 299 299)"
    by simp
  ultimately show ?thesis using drag resize by blast
qed

text \<open>
  The rectangle of a new selection is not normalized: the pointer-down makes it
  \<^verbatim>\<open>QRect(origin, QSize())\<close>, of width and height \<open>-1\<close>.
\<close>

theorem selection_reset_counterexample:
  "is_normalized (selectionRect example_display)
   \<and> selectionRect (apply_op example_platform example_display (PointerDown (QPoint 50 50)))
       = QRect 50 50 48 48
   \<and> width (QRect 50 50 48 48) = - 1 \<and> height (QRect 50 50 48 48) = - 1
   \<and> \<not> is_normalized (selectionRect (apply_op example_platform example_display (PointerDown (QPoint 50 50))))"
  by (simp add: mousePressEvent_def Let_def is_normalized_def
          example_display_def ScreenshotDisplay_new_def example_editor_def
          handleAtPoint_def contains_def translated_def handleRect_def handleSize_def
          QRect_sized_def QRect_default_def QSize_default_def topLeft_def topRight_def bottomLeft_def
          bottomRight_def padd_def width_def height_def cdiv_def)

section \<open>Committing a text session\<close>

lemma split_on_nonempty: "split_on c s \<noteq> []"
  by (induction s) (auto split: list.splits)

lemma drawLines_ops:
  "p_ops (drawLines h ls (QPoint x (y + int n * h)) painter) =
     p_ops painter @
     map (\<lambda>(i, line). DrawText (p_font painter) (p_pen painter) (QPoint x (y + int i * h)) line)
       (enumerate n ls)"
proof (induction ls arbitrary: n painter)
  case Nil
  show ?case by simp
next
  case (Cons l ls)
  have step: "y + int n * h + h = y + int (Suc n) * h"
    by (simp add: algebra_simps)
  show ?case
    by (simp add: step Cons.IH [of "Suc n"] drawText_def emit_op_def del: of_nat_Suc)
qed

lemma finalize_layer:
  assumes "textEdit st = Some te"
  shows "drawingPixmap (finalizeTextEdit pf st) =
           Painted (drawingPixmap st)
             (text_ops (te_font te) (QPen_color (ed_currentColor (editor st))) (textEditPosition st)
                (fm_ascent pf (te_font te)) (fm_height pf (te_font te))
                (split_on newline (te_plainText te)))"
proof -
  let ?painter = "setPen (QPen_color (ed_currentColor (editor st))) (setFont (te_font te) QPainter_begin)"
  let ?y = "pt_y (textEditPosition st) + fm_ascent pf (te_font te)"
  have ops: "p_ops (drawLines (fm_height pf (te_font te)) (split_on newline (te_plainText te))
                 (QPoint (pt_x (textEditPosition st)) ?y) ?painter) =
       text_ops (te_font te) (QPen_color (ed_currentColor (editor st))) (textEditPosition st)
                (fm_ascent pf (te_font te)) (fm_height pf (te_font te))
                (split_on newline (te_plainText te))"
    using drawLines_ops [of "fm_height pf (te_font te)" "split_on newline (te_plainText te)"
            "pt_x (textEditPosition st)" ?y 0 ?painter]
    by (simp add: text_ops_def setPen_def setFont_def QPainter_begin_def)
  have nonempty: "text_ops (te_font te) (QPen_color (ed_currentColor (editor st))) (textEditPosition st)
                (fm_ascent pf (te_font te)) (fm_height pf (te_font te))
                (split_on newline (te_plainText te)) \<noteq> []"
    by (simp add: text_ops_def split_on_nonempty enumerate_eq_zip)
  from assms ops nonempty show ?thesis
    by (simp add: finalizeTextEdit_def Let_def saveStateForUndo_def painted_def)
qed

text \<open>
  The branch of \<^verbatim>\<open>keyPressEvent\<close> for Escape with the Text tool and an open session also
  finalizes; the Escape shortcut takes the key before it.
\<close>

lemma keyPressEvent_escape:
  assumes "textEdit st = Some te" and "ed_currentTool (editor st) = Text"
  shows "keyPressEvent pf st Key_Escape ctrl = finalizeTextEdit pf st"
  using assms by (simp add: keyPressEvent_def)

text \<open>
  C6 (as amended). While a text session is open and the Text tool is the active tool, a
  click runs \<^verbatim>\<open>finalizeTextEdit\<close>: the layer is pushed on the undo stack; then every line
  of the session's text is drawn on the layer at the anchor's x, line \<open>i\<close> (from 0) with
  its baseline at the anchor's y plus the font's ascent plus \<open>i\<close> line heights, in the
  session's font and the toolbar's current colour; and the session is gone.
\<close>

theorem text_commit:
  assumes "textEdit st = Some te" and "ed_currentTool (editor st) = Text"
  shows "mousePressEvent pf st pos = finalizeTextEdit pf st
         \<and> undoStack (finalizeTextEdit pf st) = drawingPixmap st # undoStack st
         \<and> drawingPixmap (finalizeTextEdit pf st) =
             Painted (drawingPixmap st)
               (text_ops (te_font te) (QPen_color (ed_currentColor (editor st))) (textEditPosition st)
                  (fm_ascent pf (te_font te)) (fm_height pf (te_font te))
                  (split_on newline (te_plainText te)))
         \<and> textEdit (finalizeTextEdit pf st) = None"
proof -
  from assms have "mousePressEvent pf st pos = finalizeTextEdit pf st"
    by (simp add: mousePressEvent_def)
  moreover from assms have "undoStack (finalizeTextEdit pf st) = drawingPixmap st # undoStack st"
    and "textEdit (finalizeTextEdit pf st) = None"
    by (simp_all add: finalizeTextEdit_def Let_def saveStateForUndo_def)
  moreover note finalize_layer [OF assms(1), of pf]
  ultimately show ?thesis by simp
qed

theorem text_commit_witness:
  "mousePressEvent example_platform example_text_display (QPoint 70 70)
     = finalizeTextEdit example_platform example_text_display
   \<and> drawingPixmap (finalizeTextEdit example_platform example_text_display) =
       Painted (Filled (QSize 1920 1080) transparent)
         [DrawText (QFont ''Arial'' 16) (QPen_color red) (QPoint 50 66) ''Hi'',
          DrawText (QFont ''Arial'' 16) (QPen_color red) (QPoint 50 86) ''!'']
   \<and> undoStack (finalizeTextEdit example_platform example_text_display)
       = [Filled (QSize 1920 1080) transparent]
   \<and> textEdit (finalizeTextEdit example_platform example_text_display) = None"
proof -
  have session: "textEdit example_text_display = Some example_session"
    and tool: "ed_currentTool (editor example_text_display) = Text"
    by (simp_all add: example_text_display_def with_tool_def)
  have facts: "drawingPixmap example_text_display = Filled (QSize 1920 1080) transparent"
    "undoStack example_text_display = []"
    "ed_currentColor (editor example_text_display) = red"
    "textEditPosition example_text_display = QPoint 50 50"
    by (simp_all add: example_text_display_def with_tool_def example_display_def
          ScreenshotDisplay_new_def example_editor_def)
  have lines: "split_on newline (te_plainText example_session) = [''Hi'', ''!'']"
    by (simp add: example_session_def newline_def)
  have ops: "text_ops (te_font example_session) (QPen_color red) (QPoint 50 50)
                  (fm_ascent example_platform (te_font example_session))
                  (fm_height example_platform (te_font example_session)) [''Hi'', ''!''] =
         [DrawText (QFont ''Arial'' 16) (QPen_color red) (QPoint 50 66) ''Hi'',
          DrawText (QFont ''Arial'' 16) (QPen_color red) (QPoint 50 86) ''!'']"
    by (simp add: text_ops_def example_session_def example_platform_def enumerate_eq_zip upt_rec)
  from text_commit [OF session tool, of example_platform "QPoint 70 70"] facts lines ops
  show ?thesis by simp
qed

text \<open>
  With a session open and the pen selected, a click starts a stroke: the session stays
  open and no text is drawn. With a session open and the Text tool active, the Escape
  key runs the shortcut, which deselects the tool: the session stays open, nothing is
  drawn and nothing is pushed on the undo stack.
\<close>

theorem text_session_not_finalized_counterexample:
  "textEdit (with_tool Pen example_text_display) = Some example_session
   \<and> textEdit (mousePressEvent example_platform (with_tool Pen example_text_display) (QPoint 70 70))
       = Some example_session
   \<and> drawingPixmap (mousePressEvent example_platform (with_tool Pen example_text_display) (QPoint 70 70))
       = drawingPixmap (with_tool Pen example_text_display)
   \<and> textEdit (finalizeTextEdit example_platform (with_tool Pen example_text_display)) = None
   \<and> textEdit example_text_display = Some example_session
   \<and> ed_currentTool (editor example_text_display) = Text
   \<and> textEdit (escapeShortcut example_text_display) = Some example_session
   \<and> drawingPixmap (escapeShortcut example_text_display) = drawingPixmap example_text_display
   \<and> undoStack (escapeShortcut example_text_display) = undoStack example_text_display
   \<and> textEdit (finalizeTextEdit example_platform example_text_display) = None"
  by (simp add: mousePressEvent_def finalizeTextEdit_def saveStateForUndo_def Let_def with_tool_def
        example_text_display_def escapeShortcut_def deselectTools_def onToolSelected_def)

section \<open>Copying to the clipboard\<close>

lemma composite_painted:
  "painted (originalPixmap st) (drawPixmap (QPoint 0 0) (drawingPixmap st) QPainter_begin) = composite st"
  by (simp add: painted_def drawPixmap_def emit_op_def QPainter_begin_def composite_def)

lemma copy_clipboard:
  "clipboard (copySelectionToClipboard st) =
     (if isValid (selectionRect st) then Some (copy_pm (composite st) (selectionRect st))
      else Some (composite st))"
  by (simp add: copySelectionToClipboard_def composite_painted close_display_def closeEvent_def Let_def)

lemma intersected_inside:
  assumes "isValid r" "inside_pixmap pm r"
  shows "intersected (QRect_sized (QPoint 0 0) (pixmap_size pm)) r = r"
  using assms
  by (cases r) (auto simp: isValid_def inside_pixmap_def intersected_def QRect_sized_def)

lemma copy_inside:
  assumes "isValid r" "inside_pixmap pm r"
  shows "pixmap_size (copy_pm pm r) = size_r r"
    and "r \<noteq> QRect_sized (QPoint 0 0) (pixmap_size pm) \<Longrightarrow> copy_pm pm r = Cropped pm r"
proof -
  from assms have notnull: "\<not> pixmap_isNull pm"
    by (auto simp: pixmap_isNull_def isValid_def inside_pixmap_def)
  from assms have notempty: "\<not> isEmpty r"
    by (auto simp: isEmpty_def isValid_def)
  have whole: "size_r (QRect_sized (QPoint 0 0) (pixmap_size pm)) = pixmap_size pm"
    by (cases "pixmap_size pm") (simp add: size_r_def QRect_sized_def width_def height_def)
  from notnull notempty intersected_inside [OF assms] whole
  show "pixmap_size (copy_pm pm r) = size_r r"
    by (auto simp: copy_pm_def Let_def)
  from notnull notempty intersected_inside [OF assms]
  show "r \<noteq> QRect_sized (QPoint 0 0) (pixmap_size pm) \<Longrightarrow> copy_pm pm r = Cropped pm r"
    by (auto simp: copy_pm_def Let_def)
qed

lemma composite_size: "pixmap_size (composite st) = pixmap_size (originalPixmap st)"
  by (simp add: composite_def)

lemma copy_size:
  assumes "\<not> pixmap_isNull pm" and "\<not> isEmpty r"
  shows "pixmap_size (copy_pm pm r) = size_r (intersected (QRect_sized (QPoint 0 0) (pixmap_size pm)) r)"
proof -
  have whole: "size_r (QRect_sized (QPoint 0 0) (pixmap_size pm)) = pixmap_size pm"
    by (cases "pixmap_size pm") (simp add: size_r_def QRect_sized_def width_def height_def)
  from assms whole show ?thesis
    by (auto simp: copy_pm_def Let_def)
qed

text \<open>
  C5. Copying puts on the clipboard the annotation layer painted over the captured
  image: with a valid selection rectangle, the part of it inside the rectangle, whose
  size is that of the rectangle clipped to the image, and so, for a rectangle inside the
  image, the rectangle's size: 50 by 30 pixels for the rectangle at (10, 10) that spans
  to (60, 40); with no valid selection, all of it. The display is closed afterwards.
\<close>

theorem copy_to_clipboard:
  "(isValid (selectionRect st) \<longrightarrow>
      clipboard (copySelectionToClipboard st) = Some (copy_pm (composite st) (selectionRect st)))
   \<and> (isValid (selectionRect st) \<and> \<not> pixmap_isNull (originalPixmap st) \<longrightarrow>
        clipboard_size (copySelectionToClipboard st) =
          Some (size_r (intersected (QRect_sized (QPoint 0 0) (pixmap_size (originalPixmap st)))
                          (selectionRect st))))
   \<and> (isValid (selectionRect st) \<and> inside_pixmap (originalPixmap st) (selectionRect st) \<longrightarrow>
        clipboard_size (copySelectionToClipboard st) = Some (size_r (selectionRect st))
        \<and> (selectionRect st \<noteq> QRect_sized (QPoint 0 0) (pixmap_size (originalPixmap st)) \<longrightarrow>
             clipboard (copySelectionToClipboard st) = Some (Cropped (composite st) (selectionRect st))))
   \<and> (selectionRect st = QRect_sized (QPoint 10 10) (QSize 50 30)
        \<and> inside_pixmap (originalPixmap st) (selectionRect st) \<longrightarrow>
        clipboard_size (copySelectionToClipboard st) = Some (QSize 50 30))
   \<and> (\<not> isValid (selectionRect st) \<longrightarrow>
        clipboard (copySelectionToClipboard st) = Some (composite st))
   \<and> closed (copySelectionToClipboard st)"
proof -
  have inside: "inside_pixmap (composite st) r = inside_pixmap (originalPixmap st) r" for r
    by (simp add: inside_pixmap_def composite_size)
  have null: "pixmap_isNull (composite st) = pixmap_isNull (originalPixmap st)"
    by (simp add: pixmap_isNull_def composite_size)
  have clipped: "isValid (selectionRect st) \<and> \<not> pixmap_isNull (originalPixmap st) \<longrightarrow>
        clipboard_size (copySelectionToClipboard st) =
          Some (size_r (intersected (QRect_sized (QPoint 0 0) (pixmap_size (originalPixmap st)))
                          (selectionRect st)))"
    using copy_size [of "composite st" "selectionRect st"]
    by (auto simp add: clipboard_size_def copy_clipboard null composite_size isEmpty_def isValid_def)
  have a: "isValid (selectionRect st) \<and> inside_pixmap (originalPixmap st) (selectionRect st) \<longrightarrow>
        clipboard_size (copySelectionToClipboard st) = Some (size_r (selectionRect st))
        \<and> (selectionRect st \<noteq> QRect_sized (QPoint 0 0) (pixmap_size (originalPixmap st)) \<longrightarrow>
             clipboard (copySelectionToClipboard st) = Some (Cropped (composite st) (selectionRect st)))"
    using copy_inside [of "selectionRect st" "composite st"]
    by (simp add: clipboard_size_def copy_clipboard inside composite_size)
  have valid: "isValid (QRect_sized (QPoint 10 10) (QSize 50 30))"
    and size: "size_r (QRect_sized (QPoint 10 10) (QSize 50 30)) = QSize 50 30"
    by (simp_all add: isValid_def QRect_sized_def size_r_def width_def height_def)
  have b: "selectionRect st = QRect_sized (QPoint 10 10) (QSize 50 30)
        \<and> inside_pixmap (originalPixmap st) (selectionRect st) \<longrightarrow>
        clipboard_size (copySelectionToClipboard st) = Some (QSize 50 30)"
    using a valid size by auto
  have c: "closed (copySelectionToClipboard st)"
    by (simp add: copySelectionToClipboard_def close_display_def closeEvent_def Let_def)
  from clipped a b c show ?thesis by (simp add: copy_clipboard)
qed

theorem copy_to_clipboard_witness:
  "clipboard (copySelectionToClipboard example_region)
     = Some (Cropped (composite example_region) (QRect 10 10 59 39))
   \<and> clipboard_size (copySelectionToClipboard example_region) = Some (QSize 50 30)
   \<and> clipboard (copySelectionToClipboard example_display) = Some (composite example_display)
   \<and> closed (copySelectionToClipboard example_region)"
proof -
  have rect: "selectionRect example_region = QRect_sized (QPoint 10 10) (QSize 50 30)"
    and original: "originalPixmap example_region = Grab (QSize 1920 1080) 0"
    by (simp_all add: example_region_def example_display_def ScreenshotDisplay_new_def)
  have valid: "isValid (selectionRect example_region)"
    and inside: "inside_pixmap (originalPixmap example_region) (selectionRect example_region)"
    and part: "selectionRect example_region
                 \<noteq> QRect_sized (QPoint 0 0) (pixmap_size (originalPixmap example_region))"
    by (simp_all add: rect original isValid_def inside_pixmap_def QRect_sized_def)
  have invalid: "\<not> isValid (selectionRect example_display)"
    by (simp add: example_display_def ScreenshotDisplay_new_def isValid_def QRect_default_def)
  have corners: "selectionRect example_region = QRect 10 10 59 39"
    by (simp add: rect QRect_sized_def)
  from copy_to_clipboard [of example_region] valid inside part rect
  have "clipboard (copySelectionToClipboard example_region)
          = Some (Cropped (composite example_region) (selectionRect example_region))"
    and "clipboard_size (copySelectionToClipboard example_region) = Some (QSize 50 30)"
    and "closed (copySelectionToClipboard example_region)"
    by blast+
  moreover from copy_to_clipboard [of example_display] invalid
  have "clipboard (copySelectionToClipboard example_display) = Some (composite example_display)"
    by blast
  ultimately show ?thesis by (simp add: corners)
qed

end
